theory Spec2Isabelle
  imports Main
begin

section \<open>The logging backend, as the middleware sees it\<close>

text \<open>
  The repository is a negroni middleware that logs each request through logrus. Logrus,
  net/http, net/url, context and negroni are libraries: the model keeps of them only
  what middleware.go and the context file call, and what those calls return.

  A \<open>*logrus.Logger\<close> is a backend with a sink, a formatter and a level. A
  \<open>*logrus.Entry\<close> is a logger and a field map (\<open>logrus.Fields\<close>, a
  \<open>map[string]interface{}\<close>: unique keys, the last write wins). The values the
  repository stores in fields are strings, \<open>int\<close>s, \<open>int64\<close>s and
  \<open>time.Duration\<close>s (an int64 count of nanoseconds); no arithmetic is done on them
  here, so they are carried as \<open>int\<close>.
\<close>

datatype level =
  PanicLevel | FatalLevel | ErrorLevel | WarnLevel | InfoLevel | DebugLevel | TraceLevel

text \<open>The levels are numbered from \<open>PanicLevel\<close>, the least verbose.\<close>

fun level_rank :: "level \<Rightarrow> nat" where
  "level_rank PanicLevel = 0"
| "level_rank FatalLevel = 1"
| "level_rank ErrorLevel = 2"
| "level_rank WarnLevel = 3"
| "level_rank InfoLevel = 4"
| "level_rank DebugLevel = 5"
| "level_rank TraceLevel = 6"

datatype formatter = TextFormatter | JSONFormatter

datatype sink = Discard | Stderr | Stream nat

record logrus_Logger =
  Out :: sink
  Formatter :: formatter
  Level :: level

datatype fval = StringV string | IntV int | Int64V int | DurationV int

type_synonym logrus_Fields = "string \<rightharpoonup> fval"

record logrus_Entry =
  entryLogger :: logrus_Logger
  Data :: logrus_Fields

text \<open>
  \<open>logger.IsLevelEnabled(level)\<close>: a logger writes the records of its own level
  and of the less verbose ones.
\<close>

definition IsLevelEnabled :: "logrus_Logger \<Rightarrow> level \<Rightarrow> bool" where
  "IsLevelEnabled lg lvl = (level_rank lvl \<le> level_rank (Level lg))"

text \<open>\<open>logrus.New()\<close>: text format, level Info, standard error.\<close>

definition logrus_New :: logrus_Logger where
  "logrus_New = \<lparr>Out = Stderr, Formatter = TextFormatter, Level = InfoLevel\<rparr>"

text \<open>\<open>logrus.NewEntry(logger)\<close>: an entry with no field.\<close>

definition NewEntry :: "logrus_Logger \<Rightarrow> logrus_Entry" where
  "NewEntry lg = \<lparr>entryLogger = lg, Data = Map.empty\<rparr>"

text \<open>
  \<open>entry.WithFields(fields)\<close> returns a new entry on the same logger whose data is a
  copy of the entry's data overlaid with \<open>fields\<close>; the receiver is not changed.
  \<open>entry.WithField(k, v)\<close> is \<open>WithFields\<close> of the one-field map.
\<close>

definition WithFields :: "logrus_Entry \<Rightarrow> logrus_Fields \<Rightarrow> logrus_Entry" where
  "WithFields e fs = \<lparr>entryLogger = entryLogger e, Data = Data e ++ fs\<rparr>"

definition WithField :: "logrus_Entry \<Rightarrow> string \<Rightarrow> fval \<Rightarrow> logrus_Entry" where
  "WithField e k v = WithFields e [k \<mapsto> v]"

text \<open>
  Modelled from the spec: \<open>nullLogger\<close>, the package variable that \<open>Extract\<close>
  returns an entry of. Its declaration is not among the source files; the spec calls it a
  discard backend behind a no-op handle.
\<close>

definition nullLogger :: logrus_Logger where
  "nullLogger = \<lparr>Out = Discard, Formatter = TextFormatter, Level = PanicLevel\<rparr>"

section \<open>Response writers, contexts and requests\<close>

text \<open>
  An \<open>http.ResponseWriter\<close> is an interface value: nil, or a pointer to an object
  whose dynamic type either implements \<open>negroni.ResponseWriter\<close> (it can report the
  status written) or does not (an opaque wrapper). The dynamic type never changes; the
  status of the object does, so it lives in the world, by address.
\<close>

datatype writer = NilWriter | NegroniWriter nat | OpaqueWriter nat

text \<open>
  What \<open>negroni.ResponseWriter\<close> lets the After hook read: the status, as it
  stands when the writer is viewed through the interface. \<open>ServeHTTP\<close> does that
  after the chain has returned, and nothing writes a status between that and the call of
  the hook.
\<close>

record negroni_ResponseWriter =
  Status :: int

datatype panic = NilPointerDereference

text \<open>
  The carrier of the context file (fields \<open>logger\<close> and \<open>fields\<close>, here
  \<open>l_logger\<close> and \<open>l_fields\<close>). \<open>logger\<close> is a \<open>*logrus.Entry\<close> and may be
  nil. No function of the package writes to a carrier once \<open>ToContext\<close> has built
  it, and neither the type nor the key is exported, so a carrier is a value.
\<close>

record ctxLogger =
  l_logger :: "logrus_Entry option"
  l_fields :: logrus_Fields

text \<open>
  A \<open>context.Context\<close> is an immutable chain of key/value pairs, the latest first.
  The package's two keys are private; every other key is some other package's. A value is
  an \<open>interface{}\<close>: a \<open>*ctxLogger\<close> (possibly the nil pointer), a response
  writer, or a value of any other type.
\<close>

datatype ctx_key = ctxLoggerKey | ctxWriterKey | otherKey string

datatype ctx_val = CarrierVal "ctxLogger option" | WriterVal writer | OtherVal string

type_synonym go_context = "(ctx_key \<times> ctx_val) list"

definition Background :: go_context where
  "Background = []"

definition WithValue :: "go_context \<Rightarrow> ctx_key \<Rightarrow> ctx_val \<Rightarrow> go_context" where
  "WithValue c k v = (k, v) # c"

definition Value :: "go_context \<Rightarrow> ctx_key \<Rightarrow> ctx_val option" where
  "Value c k = map_of c k"

text \<open>
  The parts of an \<open>*http.Request\<close> that the middleware reads. The header is seen
  only through \<open>Header.Get\<close>, which gives the empty string for an absent name.
\<close>

record request =
  Method :: string
  RequestURI :: string
  URL_Path :: string
  RemoteAddr :: string
  Header_Get :: "string \<Rightarrow> string"
  ctx :: go_context

definition Context :: "request \<Rightarrow> go_context" where
  "Context r = ctx r"

definition WithContext :: "request \<Rightarrow> go_context \<Rightarrow> request" where
  "WithContext r c = r\<lparr>ctx := c\<rparr>"

section \<open>The world a request runs in\<close>

text \<open>
  What handlers and the middleware act on: the records that loggers have written to
  their sinks so far, the status of each status-capturing writer, and the wall clock. A
  record names its logger, and with it the sink and the formatter.

  \<open>entry.Info(msg)\<close> writes a record when the level of the entry's logger admits
  \<open>InfoLevel\<close>, and nothing otherwise.
\<close>

record log_record =
  rec_logger :: logrus_Logger
  rec_level :: level
  rec_msg :: string
  rec_data :: logrus_Fields

record world =
  emitted :: "log_record list"
  status :: "nat \<Rightarrow> int"
  wall :: int

definition Info :: "logrus_Entry \<Rightarrow> string \<Rightarrow> world \<Rightarrow> world" where
  "Info e msg w =
     (if IsLevelEnabled (entryLogger e) InfoLevel
      then w\<lparr>emitted := emitted w @
             [\<lparr>rec_logger = entryLogger e, rec_level = InfoLevel, rec_msg = msg,
               rec_data = Data e\<rparr>]\<rparr>
      else w)"

text \<open>
  A handler (\<open>http.HandlerFunc\<close>) is called with a writer and a request and changes
  the world; the model takes it as returning.
\<close>

type_synonym handler = "world \<Rightarrow> writer \<Rightarrow> request \<Rightarrow> world"

text \<open>The type assertion \<open>rw.(negroni.ResponseWriter)\<close>, with its \<open>ok\<close>.\<close>

fun as_negroni :: "world \<Rightarrow> writer \<Rightarrow> negroni_ResponseWriter option" where
  "as_negroni w (NegroniWriter a) = Some \<lparr>Status = status w a\<rparr>"
| "as_negroni w NilWriter = None"
| "as_negroni w (OpaqueWriter a) = None"

section \<open>The context file\<close>

text \<open>
  The assertion \<open>ctx.Value(ctxLoggerKey).(*ctxLogger)\<close> followed by the test
  \<open>!ok || l == nil\<close>: a carrier only when the value under the key is a non-nil
  \<open>*ctxLogger\<close>.
\<close>

fun carrier_of :: "ctx_val option \<Rightarrow> ctxLogger option" where
  "carrier_of (Some (CarrierVal (Some l))) = Some l"
| "carrier_of (Some (CarrierVal None)) = None"
| "carrier_of (Some (WriterVal rw)) = None"
| "carrier_of (Some (OtherVal x)) = None"
| "carrier_of None = None"

text \<open>
  \<open>Extract\<close>. The loop copies \<open>l.fields\<close> into a fresh map; \<open>WithFields\<close> on a
  nil \<open>*logrus.Entry\<close> dereferences it.
\<close>

definition Extract :: "go_context \<Rightarrow> panic + logrus_Entry" where
  "Extract c =
     (case carrier_of (Value c ctxLoggerKey) of
        None \<Rightarrow> Inr (NewEntry nullLogger)
      | Some l \<Rightarrow>
          (let fs = Map.empty ++ l_fields l in
           case l_logger l of
             None \<Rightarrow> Inl NilPointerDereference
           | Some e \<Rightarrow> Inr (WithFields e fs)))"

definition ToContext :: "go_context \<Rightarrow> logrus_Entry option \<Rightarrow> go_context" where
  "ToContext c e = WithValue c ctxLoggerKey (CarrierVal (Some \<lparr>l_logger = e, l_fields = Map.empty\<rparr>))"

text \<open>
  \<open>ExtractWriter\<close>: the assertion to \<open>http.ResponseWriter\<close> fails on an absent
  key, on a nil interface and on a value of another type, and the zero value is nil.
\<close>

definition ExtractWriter :: "go_context \<Rightarrow> writer" where
  "ExtractWriter c =
     (case Value c ctxWriterKey of
        Some (WriterVal rw) \<Rightarrow> rw
      | _ \<Rightarrow> NilWriter)"

definition AddWriterToContext :: "go_context \<Rightarrow> writer \<Rightarrow> go_context" where
  "AddWriterToContext c rw = WithValue c ctxWriterKey (WriterVal rw)"

section \<open>The middleware\<close>

text \<open>
  The \<open>timer\<close> interface reads the world's clock. \<open>time.Since\<close> saturates at the
  bounds of a \<open>time.Duration\<close>.
\<close>

record timer =
  Now :: "world \<Rightarrow> int"
  Since :: "world \<Rightarrow> int \<Rightarrow> int"

definition realClock :: timer where
  "realClock =
     \<lparr>Now = wall,
      Since = (\<lambda>w t. max (- (2 ^ 63)) (min (2 ^ 63 - 1) (wall w - t)))\<rparr>"

text \<open>
  The hooks are Go function values, nil when unset. They are taken as functions of their
  arguments that return an entry; a hook that panics, returns the nil pointer or acts on
  the world is not modelled. The fields \<open>Before\<close> and \<open>After\<close> of the
  struct are \<open>BeforeHook\<close> and \<open>AfterHook\<close> here. The logger and the clock are
  taken as set, as every constructor sets them.
\<close>

type_synonym BeforeFunc = "logrus_Entry \<Rightarrow> request \<Rightarrow> string \<Rightarrow> logrus_Entry"

type_synonym AfterFunc =
  "logrus_Entry \<Rightarrow> negroni_ResponseWriter \<Rightarrow> int \<Rightarrow> string \<Rightarrow> logrus_Entry"

record Middleware =
  Logger :: logrus_Logger
  Name :: string
  BeforeHook :: "BeforeFunc option"
  AfterHook :: "AfterFunc option"
  logStarting :: bool
  clock :: timer
  excludeURLs :: "string list"

definition DefaultBefore :: BeforeFunc where
  "DefaultBefore entry req remoteAddr =
     WithFields entry
       [''request'' \<mapsto> StringV (RequestURI req),
        ''method'' \<mapsto> StringV (Method req),
        ''remote'' \<mapsto> StringV remoteAddr]"

text \<open>
  \<open>DefaultAfter\<close>. \<open>http.StatusText\<close> is the standard library's table of reason
  phrases; it is the parameter \<open>StatusText\<close>. \<open>fmt.Sprintf\<close> with the one
  \<open>%s\<close> is concatenation, and \<open>latency.Nanoseconds()\<close> is the duration as an
  int64.
\<close>

definition DefaultAfter :: "(int \<Rightarrow> string) \<Rightarrow> AfterFunc" where
  "DefaultAfter StatusText entry res latency name =
     WithFields entry
       [''status'' \<mapsto> IntV (Status res),
        ''text_status'' \<mapsto> StringV (StatusText (Status res)),
        ''took'' \<mapsto> DurationV latency,
        (''measure#'' @ name @ ''.latency'') \<mapsto> Int64V latency]"

definition NewCustomMiddleware ::
    "(int \<Rightarrow> string) \<Rightarrow> level \<Rightarrow> formatter \<Rightarrow> string \<Rightarrow> Middleware" where
  "NewCustomMiddleware StatusText lvl fmt name =
     \<lparr>Logger = logrus_New\<lparr>Level := lvl, Formatter := fmt\<rparr>,
      Name = name,
      BeforeHook = Some DefaultBefore,
      AfterHook = Some (DefaultAfter StatusText),
      logStarting = True,
      clock = realClock,
      excludeURLs = []\<rparr>"

definition NewMiddleware :: "(int \<Rightarrow> string) \<Rightarrow> Middleware" where
  "NewMiddleware StatusText = NewCustomMiddleware StatusText InfoLevel TextFormatter ''web''"

definition NewMiddlewareFromLogger ::
    "(int \<Rightarrow> string) \<Rightarrow> logrus_Logger \<Rightarrow> string \<Rightarrow> Middleware" where
  "NewMiddlewareFromLogger StatusText lg name =
     \<lparr>Logger = lg,
      Name = name,
      BeforeHook = Some DefaultBefore,
      AfterHook = Some (DefaultAfter StatusText),
      logStarting = True,
      clock = realClock,
      excludeURLs = []\<rparr>"

definition SetLogStarting :: "Middleware \<Rightarrow> bool \<Rightarrow> Middleware" where
  "SetLogStarting m v = m\<lparr>logStarting := v\<rparr>"

text \<open>
  \<open>ExcludeURL\<close>. \<open>url.Parse\<close> is the parameter \<open>Parse\<close>; only its error is
  looked at. The method returns the middleware as it leaves it and the error, if any.
\<close>

definition ExcludeURL ::
    "(string \<Rightarrow> 'e + 'u) \<Rightarrow> Middleware \<Rightarrow> string \<Rightarrow> Middleware \<times> 'e option" where
  "ExcludeURL Parse m u =
     (case Parse u of
        Inl err \<Rightarrow> (m, Some err)
      | Inr parsed \<Rightarrow> (m\<lparr>excludeURLs := excludeURLs m @ [u]\<rparr>, None))"

definition ExcludedURLs :: "Middleware \<Rightarrow> string list" where
  "ExcludedURLs m = excludeURLs m"

text \<open>
  \<open>ServeHTTP\<close>, lines 101 to 165 of middleware.go. The receiver is a pointer, so the
  method returns the middleware as it leaves it, beside the world it leaves or the panic
  that ended it.

  The loop over \<open>m.excludeURLs\<close> calls \<open>next\<close> and returns at the first entry
  equal to the path; \<open>excluded\<close> is whether it does.
\<close>

fun excluded :: "string list \<Rightarrow> string \<Rightarrow> bool" where
  "excluded [] path = False"
| "excluded (u # us) path = (if path = u then True else excluded us path)"

text \<open>Lines 119 to 123: the real IP, when the header carries one.\<close>

definition remoteAddr_of :: "request \<Rightarrow> string" where
  "remoteAddr_of r =
     (let realIP = Header_Get r ''X-Real-IP'' in
      if realIP \<noteq> [] then realIP else RemoteAddr r)"

text \<open>Lines 125 to 129: a fresh entry, with the request identifier when there is one.\<close>

definition request_entry :: "logrus_Logger \<Rightarrow> request \<Rightarrow> logrus_Entry" where
  "request_entry lg r =
     (let entry = NewEntry lg; reqID = Header_Get r ''X-Request-Id'' in
      if reqID \<noteq> [] then WithField entry ''request_id'' (StringV reqID) else entry)"

text \<open>
  Lines 141 to 159: the writer as a \<open>negroni.ResponseWriter\<close>, or else the writer
  that \<open>ExtractWriter\<close> finds in the context of \<open>r\<close>, the request as it came in.
\<close>

definition recover_writer :: "world \<Rightarrow> writer \<Rightarrow> request \<Rightarrow> negroni_ResponseWriter option" where
  "recover_writer w rw r =
     (case as_negroni w rw of
        Some res \<Rightarrow> Some res
      | None \<Rightarrow> as_negroni w (ExtractWriter (Context r)))"

definition ServeHTTP ::
    "(int \<Rightarrow> string) \<Rightarrow> Middleware \<Rightarrow> world \<Rightarrow> writer \<Rightarrow> request \<Rightarrow> handler
       \<Rightarrow> Middleware \<times> (panic + world)" where
  "ServeHTTP StatusText m0 w rw r next =
     (let m1 = (if BeforeHook m0 = None then m0\<lparr>BeforeHook := Some DefaultBefore\<rparr> else m0);
          m = (if AfterHook m1 = None then m1\<lparr>AfterHook := Some (DefaultAfter StatusText)\<rparr> else m1)
      in
      if excluded (excludeURLs m) (URL_Path r) then (m, Inr (next w rw r))
      else
        let start = Now (clock m) w;
            remoteAddr = remoteAddr_of r;
            entry0 = request_entry (Logger m) r
        in
        case BeforeHook m of
          None \<Rightarrow> (m, Inl NilPointerDereference)
        | Some beforeFn \<Rightarrow>
            let entry = beforeFn entry0 r remoteAddr;
                w1 = (if logStarting m then Info entry ''started handling request'' w else w);
                newCtx = ToContext (Context r) (Some entry);
                w2 = next w1 rw (WithContext r newCtx);
                latency = Since (clock m) w2 start
            in
            case recover_writer w2 rw r of
              None \<Rightarrow> (m, Inr w2)
            | Some res \<Rightarrow>
                (case Extract newCtx of
                   Inl p \<Rightarrow> (m, Inl p)
                 | Inr lg \<Rightarrow>
                     (case AfterHook m of
                        None \<Rightarrow> (m, Inl NilPointerDereference)
                      | Some afterFn \<Rightarrow>
                          (m, Inr (Info (afterFn lg res latency (Name m))
                                     ''completed handling request'' w2)))))"

section \<open>Notions used in the statements\<close>

text \<open>Whether the dynamic type of a writer implements \<open>negroni.ResponseWriter\<close>.\<close>

fun is_negroni :: "writer \<Rightarrow> bool" where
  "is_negroni (NegroniWriter a) = True"
| "is_negroni NilWriter = False"
| "is_negroni (OpaqueWriter a) = False"

text \<open>The hooks a dispatch calls: the configured ones, or the defaults when they are nil.\<close>

definition effective_before :: "Middleware \<Rightarrow> BeforeFunc" where
  "effective_before m = (case BeforeHook m of None \<Rightarrow> DefaultBefore | Some b \<Rightarrow> b)"

definition effective_after :: "(int \<Rightarrow> string) \<Rightarrow> Middleware \<Rightarrow> AfterFunc" where
  "effective_after StatusText m =
     (case AfterHook m of None \<Rightarrow> DefaultAfter StatusText | Some a \<Rightarrow> a)"

text \<open>The entry that the Before hook returns for a request (line 131).\<close>

definition dispatch_entry :: "Middleware \<Rightarrow> request \<Rightarrow> logrus_Entry" where
  "dispatch_entry m r = effective_before m (request_entry (Logger m) r) r (remoteAddr_of r)"

text \<open>How many records with a given message have been written.\<close>

definition count_msg :: "string \<Rightarrow> world \<Rightarrow> nat" where
  "count_msg s w = length (filter (\<lambda>c. rec_msg c = s) (emitted w))"

section \<open>Example inputs\<close>

text \<open>
  Two rows of the standard library's status table and a parser that rejects one
  malformed escape stand for \<open>http.StatusText\<close> and \<open>url.Parse\<close> in the examples.
\<close>

definition statusText_ex :: "int \<Rightarrow> string" where
  "statusText_ex code =
     (if code = 200 then ''OK'' else if code = 404 then ''Not Found'' else [])"

definition parse_ex :: "string \<Rightarrow> string + string" where
  "parse_ex u = (if u = ''%zz'' then Inl ''invalid URL escape'' else Inr u)"

definition world0 :: world where
  "world0 = \<lparr>emitted = [], status = (\<lambda>a. 0), wall = 0\<rparr>"

definition req_ex :: "string \<Rightarrow> go_context \<Rightarrow> request" where
  "req_ex path c =
     \<lparr>Method = ''GET'', RequestURI = path, URL_Path = path, RemoteAddr = ''10.0.0.7:5150'',
      Header_Get = (\<lambda>k. []), ctx = c\<rparr>"

text \<open>\<open>WriteHeader\<close> on a status-capturing writer records the code.\<close>

definition WriteHeader :: "writer \<Rightarrow> int \<Rightarrow> world \<Rightarrow> world" where
  "WriteHeader rw code w =
     (case rw of NegroniWriter a \<Rightarrow> w\<lparr>status := (status w)(a := code)\<rparr> | _ \<Rightarrow> w)"

text \<open>A handler that answers 200 on the writer it is given.\<close>

definition ok_handler :: handler where
  "ok_handler w rw r = WriteHeader rw 200 w"

text \<open>
  A handler behind an opaque wrapper of the status-capturing writer at address 0: its
  answer reaches that writer.
\<close>

definition wrapped_ok_handler :: handler where
  "wrapped_ok_handler w rw r = WriteHeader (NegroniWriter 0) 200 w"

text \<open>
  A handler that takes the handle from its request's context, attaches a field to it,
  installs the enriched handle in a derived context for the handlers after it, and there
  logs through the handle that \<open>Extract\<close> gives, then answers 200.
\<close>

definition enriching_handler :: handler where
  "enriching_handler w rw r =
     (case Extract (Context r) of
        Inl p \<Rightarrow> w
      | Inr lg \<Rightarrow>
          (let enriched = WithField lg ''user'' (StringV ''alice'');
               r' = WithContext r (ToContext (Context r) (Some enriched))
           in case Extract (Context r') of
                Inl p \<Rightarrow> w
              | Inr lg' \<Rightarrow> WriteHeader rw 200 (Info lg' ''order placed'' w)))"

text \<open>
  A handler that puts the status-capturing writer at address 0 into the context of the
  request it passes on, and whose chain then answers 200 on that writer.
\<close>

definition depositing_handler :: handler where
  "depositing_handler w rw r =
     (let r' = WithContext r (AddWriterToContext (Context r) (NegroniWriter 0))
      in WriteHeader (ExtractWriter (Context r')) 200 w)"

text \<open>The default middleware with \<open>/healthz\<close> excluded.\<close>

definition mw_ex :: Middleware where
  "mw_ex = fst (ExcludeURL parse_ex (NewMiddleware statusText_ex) ''/healthz'')"

text \<open>A middleware built with the level Error: log-starting on, nothing excluded.\<close>

definition mw_quiet :: Middleware where
  "mw_quiet = NewCustomMiddleware statusText_ex ErrorLevel TextFormatter ''web''"

definition enriched_run :: "Middleware \<times> (panic + world)" where
  "enriched_run =
     ServeHTTP statusText_ex mw_ex world0 (NegroniWriter 0) (req_ex ''/orders'' Background)
       enriching_handler"

section \<open>Lemmas about the model\<close>

lemma excluded_iff: "excluded us p \<longleftrightarrow> p \<in> set us"
  by (induction us) auto

lemma Extract_ToContext_Some: "Extract (ToContext c (Some e)) = Inr e"
  by (simp add: Extract_def ToContext_def WithValue_def Value_def WithFields_def)

text \<open>A nil handle in the carrier makes \<open>Extract\<close> panic.\<close>

lemma Extract_ToContext_nil: "Extract (ToContext c None) = Inl NilPointerDereference"
  by (simp add: Extract_def ToContext_def WithValue_def Value_def)

text \<open>\<open>ToContext\<close> leaves the writer slot as it is.\<close>

lemma ExtractWriter_ToContext: "ExtractWriter (ToContext c e) = ExtractWriter c"
  by (simp add: ExtractWriter_def ToContext_def WithValue_def Value_def)

lemma ExtractWriter_AddWriterToContext: "ExtractWriter (AddWriterToContext c rw) = rw"
  by (simp add: ExtractWriter_def AddWriterToContext_def WithValue_def Value_def)

lemma as_negroni_None: "\<not> is_negroni rw \<Longrightarrow> as_negroni w rw = None"
  by (cases rw) simp_all

lemma count_msg_Info:
  "count_msg s (Info e msg w) =
     count_msg s w + (if msg = s \<and> IsLevelEnabled (entryLogger e) InfoLevel then 1 else 0)"
  by (simp add: count_msg_def Info_def)

lemma IsLevelEnabled_logrus_New: "IsLevelEnabled logrus_New InfoLevel"
  by (simp add: IsLevelEnabled_def logrus_New_def)

lemma entryLogger_WithFields: "entryLogger (WithFields e fs) = entryLogger e"
  by (simp add: WithFields_def)

text \<open>Under the default Before hook the entry of a dispatch is on the middleware's logger.\<close>

lemma dispatch_entry_default_logger:
  assumes "BeforeHook m = None \<or> BeforeHook m = Some DefaultBefore"
  shows "entryLogger (dispatch_entry m r) = Logger m"
  using assms
  by (auto simp: dispatch_entry_def effective_before_def DefaultBefore_def request_entry_def
      WithField_def WithFields_def NewEntry_def Let_def)

lemma ServeHTTP_fst:
  "fst (ServeHTTP st m w rw r next) =
     m\<lparr>BeforeHook := Some (effective_before m), AfterHook := Some (effective_after st m)\<rparr>"
  by (cases "BeforeHook m"; cases "AfterHook m")
     (simp_all add: ServeHTTP_def Let_def effective_before_def effective_after_def
        split: option.splits sum.splits)

text \<open>
  What a dispatch of a request that is not excluded leaves: the calls to nil hooks and
  the panic of \<open>Extract\<close> are never reached.
\<close>

lemma ServeHTTP_proceed:
  assumes "\<not> excluded (excludeURLs m) (URL_Path r)"
  shows "snd (ServeHTTP st m w rw r next) =
     (let entry = dispatch_entry m r;
          w1 = (if logStarting m then Info entry ''started handling request'' w else w);
          w2 = next w1 rw (WithContext r (ToContext (Context r) (Some entry)))
      in case recover_writer w2 rw r of
           None \<Rightarrow> Inr w2
         | Some res \<Rightarrow>
             Inr (Info (effective_after st m entry res (Since (clock m) w2 (Now (clock m) w))
                          (Name m))
                    ''completed handling request'' w2))"
  using assms
  by (cases "BeforeHook m"; cases "AfterHook m")
     (simp_all add: ServeHTTP_def Let_def effective_before_def effective_after_def
        dispatch_entry_def Extract_ToContext_Some split: option.splits)

lemma mw_ex_simps:
  "excludeURLs mw_ex = [''/healthz'']" "logStarting mw_ex = True" "Name mw_ex = ''web''"
  "BeforeHook mw_ex = Some DefaultBefore" "AfterHook mw_ex = Some (DefaultAfter statusText_ex)"
  "clock mw_ex = realClock" "Logger mw_ex = logrus_New"
  by (simp_all add: mw_ex_def ExcludeURL_def parse_ex_def NewMiddleware_def
      NewCustomMiddleware_def logrus_New_def)

lemma req_ex_simps:
  "URL_Path (req_ex p c) = p" "Context (req_ex p c) = c" "RequestURI (req_ex p c) = p"
  "Method (req_ex p c) = ''GET''" "RemoteAddr (req_ex p c) = ''10.0.0.7:5150''"
  "Header_Get (req_ex p c) k = []" "ctx (req_ex p c) = c"
  by (simp_all add: req_ex_def Context_def)

lemma dispatch_entry_ex:
  "dispatch_entry mw_ex (req_ex p c) =
     \<lparr>entryLogger = logrus_New,
      Data = [''request'' \<mapsto> StringV p, ''method'' \<mapsto> StringV ''GET'',
              ''remote'' \<mapsto> StringV ''10.0.0.7:5150'']\<rparr>"
  by (simp add: dispatch_entry_def effective_before_def mw_ex_simps req_ex_simps
      request_entry_def remoteAddr_of_def DefaultBefore_def WithFields_def NewEntry_def)

text \<open>The run of \<open>enriching_handler\<close> behind the example middleware, step by step.\<close>

lemma enriched_run_eq:
  "snd enriched_run =
     Inr (Info (DefaultAfter statusText_ex (dispatch_entry mw_ex (req_ex ''/orders'' Background))
                  \<lparr>Status = 200\<rparr> 0 ''web'')
            ''completed handling request''
            (WriteHeader (NegroniWriter 0) 200
               (Info (WithField (dispatch_entry mw_ex (req_ex ''/orders'' Background))
                        ''user'' (StringV ''alice''))
                  ''order placed''
                  (Info (dispatch_entry mw_ex (req_ex ''/orders'' Background))
                     ''started handling request'' world0))))"
proof -
  have ne: "\<not> excluded (excludeURLs mw_ex) (URL_Path (req_ex ''/orders'' Background))"
    by (simp add: mw_ex_simps req_ex_simps)
  show ?thesis
    unfolding enriched_run_def
    by (simp add: ServeHTTP_proceed [OF ne] Let_def mw_ex_simps enriching_handler_def Context_def
        WithContext_def Extract_ToContext_Some effective_after_def recover_writer_def
        WriteHeader_def Info_def realClock_def world0_def)
qed

text \<open>\<open>ExcludeURL\<close> on a string the example parser rejects, and on one it accepts.\<close>

lemma ExcludeURL_examples:
  "ExcludeURL parse_ex mw_ex ''%zz'' = (mw_ex, Some ''invalid URL escape'')"
  "excludeURLs (fst (ExcludeURL parse_ex mw_ex ''/metrics'')) = [''/healthz'', ''/metrics'']"
  "snd (ExcludeURL parse_ex mw_ex ''/metrics'') = None"
  by (simp_all add: ExcludeURL_def parse_ex_def mw_ex_simps)

section \<open>The claims\<close>

text \<open>
  Claim C1. When the path of the request equals an entry of the excluded-path list,
  \<open>ServeHTTP\<close> ends normally and leaves exactly the world that the next handler
  leaves when called on the world, the writer and the request as they came in: the
  request carries its own context (no carrier is attached), nothing is handed to the
  backend before or after the call, and the clock plays no part. This holds for every
  middleware, so for every setting of the hooks and of the log-starting option.
\<close>

theorem ServeHTTP_excluded:
  assumes "URL_Path r \<in> set (excludeURLs m)"
  shows "snd (ServeHTTP st m w rw r next) = Inr (next w rw r)"
  using assms by (simp add: ServeHTTP_def Let_def excluded_iff)

theorem ServeHTTP_excluded_witness:
  "URL_Path (req_ex ''/healthz'' Background) \<in> set (excludeURLs mw_ex) \<and>
   snd (ServeHTTP statusText_ex mw_ex world0 (NegroniWriter 0) (req_ex ''/healthz'' Background)
          ok_handler)
     = Inr (world0\<lparr>status := (status world0)(0 := 200)\<rparr>) \<and>
   emitted (world0\<lparr>status := (status world0)(0 := 200)\<rparr>) = []"
  using ServeHTTP_excluded [of "req_ex ''/healthz'' Background" mw_ex statusText_ex world0
      "NegroniWriter 0" ok_handler]
  by (simp add: mw_ex_simps req_ex_simps ok_handler_def WriteHeader_def world0_def)

text \<open>
  Claim C2 says that a request that is not excluded gets exactly one
  \<open>started handling request\<close> record when the log-starting option is on. It does not
  when the logger is less verbose than Info: \<open>NewCustomMiddleware\<close> with the level
  Error gives a middleware with log-starting on, and a request to it, answered 200 on a
  status-capturing writer, leaves no record at all.
\<close>

theorem start_record_dropped_below_info_level:
  "logStarting mw_quiet \<and>
   URL_Path (req_ex ''/orders'' Background) \<notin> set (excludeURLs mw_quiet) \<and>
   snd (ServeHTTP statusText_ex mw_quiet world0 (NegroniWriter 0) (req_ex ''/orders'' Background)
          ok_handler)
     = Inr (world0\<lparr>status := (status world0)(0 := 200)\<rparr>) \<and>
   count_msg ''started handling request'' (world0\<lparr>status := (status world0)(0 := 200)\<rparr>) = 0"
proof -
  have quiet: "logStarting mw_quiet" "excludeURLs mw_quiet = []"
    "BeforeHook mw_quiet = Some DefaultBefore" "Level (Logger mw_quiet) = ErrorLevel"
    by (simp_all add: mw_quiet_def NewCustomMiddleware_def)
  have ne: "\<not> excluded (excludeURLs mw_quiet) (URL_Path (req_ex ''/orders'' Background))"
    by (simp add: quiet)
  have "entryLogger (dispatch_entry mw_quiet r) = Logger mw_quiet" for r
    by (rule dispatch_entry_default_logger) (simp add: quiet)
  then have silent: "Info (dispatch_entry mw_quiet r) msg w = w" for r msg w
    by (simp add: Info_def IsLevelEnabled_def quiet)
  have silent_after: "Info (effective_after statusText_ex mw_quiet e res lat name) msg w = w"
    if "entryLogger e = Logger mw_quiet" for e res lat name msg w
    using that
    by (simp add: Info_def IsLevelEnabled_def quiet effective_after_def mw_quiet_def
        NewCustomMiddleware_def DefaultAfter_def WithFields_def)
  have "snd (ServeHTTP statusText_ex mw_quiet world0 (NegroniWriter 0)
               (req_ex ''/orders'' Background) ok_handler)
          = Inr (world0\<lparr>status := (status world0)(0 := 200)\<rparr>)"
    by (simp add: ServeHTTP_proceed [OF ne] Let_def quiet silent recover_writer_def
        ok_handler_def WriteHeader_def silent_after
        dispatch_entry_default_logger [of mw_quiet, simplified quiet, simplified])
  then show ?thesis
    by (simp add: quiet req_ex_simps count_msg_def world0_def)
qed

text \<open>
  Claim C2, amended. When the path of the request equals no entry of the excluded-path
  list, \<open>ServeHTTP\<close> ends normally. It calls \<open>Info\<close> with
  \<open>started handling request\<close> once when the log-starting option is on and not at all
  when it is off, on the entry that the Before hook returned; so the world it calls the
  next handler in has one start record more than the incoming world exactly when the
  option is on and the level of that entry's logger admits Info (under the default hook
  that logger is the middleware's, see \<open>dispatch_entry_default_logger\<close>), and is the
  incoming world otherwise. The world it leaves is the one the next handler left, or that
  world after one call of \<open>Info\<close> with \<open>completed handling request\<close>: no further
  start record and at most one completion record.
\<close>

theorem ServeHTTP_start_and_completion:
  assumes "URL_Path r \<notin> set (excludeURLs m)"
  shows
    "(let w1 = (if logStarting m then Info (dispatch_entry m r) ''started handling request'' w
                else w);
          w2 = next w1 rw (WithContext r (ToContext (Context r) (Some (dispatch_entry m r))))
      in count_msg ''started handling request'' w1 =
           count_msg ''started handling request'' w +
             (if logStarting m \<and> IsLevelEnabled (entryLogger (dispatch_entry m r)) InfoLevel
              then 1 else 0) \<and>
         w1 = (if logStarting m \<and> IsLevelEnabled (entryLogger (dispatch_entry m r)) InfoLevel
               then w\<lparr>emitted := emitted w @
                      [\<lparr>rec_logger = entryLogger (dispatch_entry m r), rec_level = InfoLevel,
                        rec_msg = ''started handling request'',
                        rec_data = Data (dispatch_entry m r)\<rparr>]\<rparr>
               else w) \<and>
         count_msg ''completed handling request'' w1 = count_msg ''completed handling request'' w \<and>
         (\<exists>w'. snd (ServeHTTP st m w rw r next) = Inr w' \<and>
            (w' = w2 \<or> (\<exists>entry'. w' = Info entry' ''completed handling request'' w2)) \<and>
            count_msg ''started handling request'' w' = count_msg ''started handling request'' w2 \<and>
            count_msg ''completed handling request'' w'
              \<le> count_msg ''completed handling request'' w2 + 1))"
proof -
  define w1 where
    "w1 = (if logStarting m then Info (dispatch_entry m r) ''started handling request'' w else w)"
  define w2 where
    "w2 = next w1 rw (WithContext r (ToContext (Context r) (Some (dispatch_entry m r))))"
  from assms have ne: "\<not> excluded (excludeURLs m) (URL_Path r)"
    by (simp add: excluded_iff)
  have start: "count_msg ''started handling request'' w1 =
      count_msg ''started handling request'' w +
        (if logStarting m \<and> IsLevelEnabled (entryLogger (dispatch_entry m r)) InfoLevel
         then 1 else 0)"
    by (simp add: w1_def count_msg_Info)
  have shape: "w1 =
      (if logStarting m \<and> IsLevelEnabled (entryLogger (dispatch_entry m r)) InfoLevel
       then w\<lparr>emitted := emitted w @
              [\<lparr>rec_logger = entryLogger (dispatch_entry m r), rec_level = InfoLevel,
                rec_msg = ''started handling request'',
                rec_data = Data (dispatch_entry m r)\<rparr>]\<rparr>
       else w)"
    by (simp add: w1_def Info_def)
  have no_completion: "count_msg ''completed handling request'' w1 =
      count_msg ''completed handling request'' w"
    by (simp add: w1_def count_msg_Info)
  have final: "\<exists>w'. snd (ServeHTTP st m w rw r next) = Inr w' \<and>
      (w' = w2 \<or> (\<exists>entry'. w' = Info entry' ''completed handling request'' w2)) \<and>
      count_msg ''started handling request'' w' = count_msg ''started handling request'' w2 \<and>
      count_msg ''completed handling request'' w' \<le> count_msg ''completed handling request'' w2 + 1"
  proof (cases "recover_writer w2 rw r")
    case None
    then have "snd (ServeHTTP st m w rw r next) = Inr w2"
      by (simp add: ServeHTTP_proceed [OF ne] Let_def w1_def w2_def)
    then show ?thesis by simp
  next
    case (Some res)
    then have "snd (ServeHTTP st m w rw r next) =
        Inr (Info (effective_after st m (dispatch_entry m r) res
                     (Since (clock m) w2 (Now (clock m) w)) (Name m))
               ''completed handling request'' w2)"
      by (simp add: ServeHTTP_proceed [OF ne] Let_def w1_def w2_def)
    then show ?thesis by (auto simp: count_msg_Info)
  qed
  have "count_msg ''started handling request'' w1 =
           count_msg ''started handling request'' w +
             (if logStarting m \<and> IsLevelEnabled (entryLogger (dispatch_entry m r)) InfoLevel
              then 1 else 0) \<and>
        w1 = (if logStarting m \<and> IsLevelEnabled (entryLogger (dispatch_entry m r)) InfoLevel
               then w\<lparr>emitted := emitted w @
                      [\<lparr>rec_logger = entryLogger (dispatch_entry m r), rec_level = InfoLevel,
                        rec_msg = ''started handling request'',
                        rec_data = Data (dispatch_entry m r)\<rparr>]\<rparr>
               else w) \<and>
        count_msg ''completed handling request'' w1 = count_msg ''completed handling request'' w \<and>
        (\<exists>w'. snd (ServeHTTP st m w rw r next) = Inr w' \<and>
            (w' = w2 \<or> (\<exists>entry'. w' = Info entry' ''completed handling request'' w2)) \<and>
            count_msg ''started handling request'' w' = count_msg ''started handling request'' w2 \<and>
            count_msg ''completed handling request'' w'
              \<le> count_msg ''completed handling request'' w2 + 1)"
    using start shape no_completion final by blast
  then show ?thesis
    unfolding Let_def w1_def w2_def .
qed

theorem ServeHTTP_start_and_completion_witness:
  "URL_Path (req_ex ''/orders'' Background) \<notin> set (excludeURLs mw_ex) \<and>
   logStarting mw_ex \<and>
   IsLevelEnabled (entryLogger (dispatch_entry mw_ex (req_ex ''/orders'' Background))) InfoLevel \<and>
   (\<exists>w'. snd (ServeHTTP statusText_ex mw_ex world0 (NegroniWriter 0)
                 (req_ex ''/orders'' Background) ok_handler) = Inr w' \<and>
      count_msg ''started handling request'' w' = 1 \<and>
      count_msg ''completed handling request'' w' \<le> 1)"
  using ServeHTTP_start_and_completion [of "req_ex ''/orders'' Background" mw_ex world0
      ok_handler "NegroniWriter 0" statusText_ex]
  by (auto simp: Let_def mw_ex_simps req_ex_simps ok_handler_def WriteHeader_def count_msg_def
      Info_def world0_def dispatch_entry_ex IsLevelEnabled_logrus_New)

text \<open>
  Claim C3. For a context in which the value under the carrier key is not a non-nil
  carrier (the key is absent, the value has another type, or it is the nil carrier;
  \<open>ToContext\<close> stores none of these), \<open>Extract\<close> does not panic and returns a
  new entry of \<open>nullLogger\<close>, the discard backend, with no field. The result is an
  entry, never the nil pointer.
\<close>

theorem Extract_without_carrier:
  assumes "\<forall>l. Value c ctxLoggerKey \<noteq> Some (CarrierVal (Some l))"
  shows "Extract c = Inr (NewEntry nullLogger) \<and>
         Out (entryLogger (NewEntry nullLogger)) = Discard \<and>
         Data (NewEntry nullLogger) = Map.empty"
proof -
  have "carrier_of (Value c ctxLoggerKey) = None"
    using assms by (cases "Value c ctxLoggerKey" rule: carrier_of.cases) simp_all
  then show ?thesis
    by (simp add: Extract_def NewEntry_def nullLogger_def)
qed

theorem Extract_without_carrier_witness:
  "Value Background ctxLoggerKey = None \<and>
   Extract Background = Inr (NewEntry nullLogger) \<and>
   Value (WithValue Background ctxLoggerKey (OtherVal ''x'')) ctxLoggerKey = Some (OtherVal ''x'') \<and>
   Extract (WithValue Background ctxLoggerKey (OtherVal ''x'')) = Inr (NewEntry nullLogger) \<and>
   Value (WithValue Background ctxLoggerKey (CarrierVal None)) ctxLoggerKey
     = Some (CarrierVal None) \<and>
   Extract (WithValue Background ctxLoggerKey (CarrierVal None)) = Inr (NewEntry nullLogger)"
  using Extract_without_carrier [of Background]
    Extract_without_carrier [of "WithValue Background ctxLoggerKey (OtherVal ''x'')"]
    Extract_without_carrier [of "WithValue Background ctxLoggerKey (CarrierVal None)"]
  by (simp add: Background_def WithValue_def Value_def)

text \<open>
  Claim C4. For every context and every handle, \<open>Extract\<close> of the context that
  \<open>ToContext\<close> builds from them returns a handle with the same logger and the same
  field map as the handle: no field added, none removed. (The handle is an entry; with
  the nil pointer in its place \<open>Extract\<close> panics, see \<open>Extract_ToContext_nil\<close>.)
\<close>

theorem Extract_ToContext_fields:
  "\<exists>h'. Extract (ToContext c (Some h)) = Inr h' \<and> Data h' = Data h \<and>
         entryLogger h' = entryLogger h"
  by (simp add: Extract_ToContext_Some)

text \<open>
  Claim C5. When the request is not excluded and neither the writer passed to
  \<open>ServeHTTP\<close> nor the writer that \<open>ExtractWriter\<close> finds in the request's context
  is status-capturing, \<open>ServeHTTP\<close> ends normally (no panic) and leaves exactly the
  world that the next handler left: no completion record, no warning, no error.
\<close>

theorem ServeHTTP_no_writer_skips_completion:
  assumes "URL_Path r \<notin> set (excludeURLs m)"
    and "\<not> is_negroni rw"
    and "\<not> is_negroni (ExtractWriter (Context r))"
  shows
    "(let w1 = (if logStarting m then Info (dispatch_entry m r) ''started handling request'' w
                else w);
          w2 = next w1 rw (WithContext r (ToContext (Context r) (Some (dispatch_entry m r))))
      in snd (ServeHTTP st m w rw r next) = Inr w2)"
proof -
  from assms(1) have ne: "\<not> excluded (excludeURLs m) (URL_Path r)"
    by (simp add: excluded_iff)
  have "recover_writer w2 rw r = None" for w2
    using assms(2,3) by (simp add: recover_writer_def as_negroni_None)
  then show ?thesis
    by (simp add: ServeHTTP_proceed [OF ne] Let_def)
qed

theorem ServeHTTP_no_writer_skips_completion_witness:
  "URL_Path (req_ex ''/orders'' Background) \<notin> set (excludeURLs mw_ex) \<and>
   \<not> is_negroni (OpaqueWriter 1) \<and>
   \<not> is_negroni (ExtractWriter (Context (req_ex ''/orders'' Background))) \<and>
   snd (ServeHTTP statusText_ex mw_ex world0 (OpaqueWriter 1) (req_ex ''/orders'' Background)
          wrapped_ok_handler) =
     Inr \<lparr>emitted =
            [\<lparr>rec_logger = logrus_New, rec_level = InfoLevel,
              rec_msg = ''started handling request'',
              rec_data = [''request'' \<mapsto> StringV ''/orders'', ''method'' \<mapsto> StringV ''GET'',
                          ''remote'' \<mapsto> StringV ''10.0.0.7:5150'']\<rparr>],
          status = (\<lambda>a. 0)(0 := 200), wall = 0\<rparr>"
  using ServeHTTP_no_writer_skips_completion [of "req_ex ''/orders'' Background" mw_ex
      "OpaqueWriter 1" world0 wrapped_ok_handler statusText_ex]
  by (simp add: Let_def mw_ex_simps req_ex_simps dispatch_entry_ex ExtractWriter_def
      Background_def Value_def wrapped_ok_handler_def WriteHeader_def Info_def world0_def
      IsLevelEnabled_logrus_New)

text \<open>
  Claim C6. For every handle, status-capturing writer, latency and middleware name, the
  default After hook returns a handle on the same logger whose fields are those of the
  handle with four set: \<open>status\<close> to the writer's status code as an integer,
  \<open>text_status\<close> to the status text of that code, \<open>took\<close> to the latency as a
  duration, and \<open>measure#<name>.latency\<close> to the latency as an integer count of
  nanoseconds. The four keys are distinct, so each holds the value named.
\<close>

theorem DefaultAfter_fields:
  "entryLogger (DefaultAfter st e res latency name) = entryLogger e \<and>
   Data (DefaultAfter st e res latency name) =
     (Data e)(''status'' \<mapsto> IntV (Status res),
              ''text_status'' \<mapsto> StringV (st (Status res)),
              ''took'' \<mapsto> DurationV latency,
              ''measure#'' @ name @ ''.latency'' \<mapsto> Int64V latency) \<and>
   Data (DefaultAfter st e res latency name) ''status'' = Some (IntV (Status res)) \<and>
   Data (DefaultAfter st e res latency name) ''text_status'' = Some (StringV (st (Status res))) \<and>
   Data (DefaultAfter st e res latency name) ''took'' = Some (DurationV latency) \<and>
   Data (DefaultAfter st e res latency name) (''measure#'' @ name @ ''.latency'')
     = Some (Int64V latency)"
  by (simp add: DefaultAfter_def WithFields_def)

text \<open>
  Claim C7. For every input string \<open>u\<close>: when \<open>url.Parse\<close> gives an error for
  \<open>u\<close>, \<open>ExcludeURL\<close> returns that error and leaves the middleware, its
  excluded-path list included, as it was; when \<open>url.Parse\<close> accepts \<open>u\<close>,
  \<open>ExcludeURL\<close> returns no error and leaves the middleware with \<open>u\<close> itself
  appended at the end of the list and nothing else changed. One of the two is always the
  case.
\<close>

theorem ExcludeURL_error_or_append:
  "ExcludeURL Parse m u =
     (case Parse u of
        Inl err \<Rightarrow> (m, Some err)
      | Inr parsed \<Rightarrow> (m\<lparr>excludeURLs := excludeURLs m @ [u]\<rparr>, None)) \<and>
   (\<forall>err. Parse u = Inl err \<longrightarrow>
      ExcludeURL Parse m u = (m, Some err) \<and>
      excludeURLs (fst (ExcludeURL Parse m u)) = excludeURLs m) \<and>
   (\<forall>parsed. Parse u = Inr parsed \<longrightarrow>
      ExcludeURL Parse m u = (m\<lparr>excludeURLs := excludeURLs m @ [u]\<rparr>, None) \<and>
      excludeURLs (fst (ExcludeURL Parse m u)) = excludeURLs m @ [u]) \<and>
   ((\<exists>err. ExcludeURL Parse m u = (m, Some err)) \<or>
    ExcludeURL Parse m u = (m\<lparr>excludeURLs := excludeURLs m @ [u]\<rparr>, None))"
  by (cases "Parse u") (simp_all add: ExcludeURL_def)

theorem ExcludeURL_error_or_append_witness:
  "parse_ex ''%zz'' = Inl ''invalid URL escape'' \<and>
   ExcludeURL parse_ex mw_ex ''%zz'' = (mw_ex, Some ''invalid URL escape'') \<and>
   excludeURLs (fst (ExcludeURL parse_ex mw_ex ''%zz'')) = [''/healthz''] \<and>
   parse_ex ''/metrics'' = Inr ''/metrics'' \<and>
   ExcludeURL parse_ex mw_ex ''/metrics'' =
     (mw_ex\<lparr>excludeURLs := [''/healthz'', ''/metrics'']\<rparr>, None) \<and>
   excludeURLs (fst (ExcludeURL parse_ex mw_ex ''/metrics'')) = [''/healthz'', ''/metrics'']"
  using ExcludeURL_error_or_append [of parse_ex mw_ex "''%zz''"]
    ExcludeURL_error_or_append [of parse_ex mw_ex "''/metrics''"]
  by (simp add: parse_ex_def mw_ex_simps)

text \<open>
  Claim C8 says that fields a downstream handler adds to the handle it reaches through
  \<open>Extract\<close> are in the handle passed to the After hook and so in the completion
  record. They are not. In \<open>enriched_run\<close> the handler extracts the handle, attaches
  the field \<open>user\<close>, installs the enriched handle in a derived context and logs
  through what \<open>Extract\<close> gives there: its own record carries \<open>user\<close>, the
  completion record of the middleware, written after it for the status 200, does not.
\<close>

theorem enrichment_not_in_completion_record:
  "\<not> isl (snd enriched_run) \<and>
   map rec_msg (emitted (projr (snd enriched_run))) =
     [''started handling request'', ''order placed'', ''completed handling request''] \<and>
   rec_data (emitted (projr (snd enriched_run)) ! 1) ''user'' = Some (StringV ''alice'') \<and>
   rec_data (emitted (projr (snd enriched_run)) ! 2) ''user'' = None \<and>
   rec_data (emitted (projr (snd enriched_run)) ! 2) ''status'' = Some (IntV 200)"
  by (simp add: enriched_run_eq Info_def WriteHeader_def world0_def DefaultAfter_def
      WithFields_def WithField_def dispatch_entry_ex IsLevelEnabled_logrus_New)

text \<open>
  Claim C8, amended. For every request that is not excluded and for which a
  status-capturing writer is recovered (the writer passed in, or else the one in the
  request's context), the handle passed to the After hook is the one re-extracted from
  the context the middleware installed, and it is the entry that the Before hook
  returned, with that entry's logger and fields: it does not depend on the next handler.
  \<open>Info\<close> is called for the completion record on what the After hook makes of it.
\<close>

theorem ServeHTTP_after_gets_installed_entry:
  assumes "URL_Path r \<notin> set (excludeURLs m)"
    and "is_negroni rw \<or> is_negroni (ExtractWriter (Context r))"
  shows
    "Extract (ToContext (Context r) (Some (dispatch_entry m r))) = Inr (dispatch_entry m r) \<and>
     (let w1 = (if logStarting m then Info (dispatch_entry m r) ''started handling request'' w
                else w);
          w2 = next w1 rw (WithContext r (ToContext (Context r) (Some (dispatch_entry m r))))
      in \<exists>res. recover_writer w2 rw r = Some res \<and>
           snd (ServeHTTP st m w rw r next) =
             Inr (Info (effective_after st m (dispatch_entry m r) res
                          (Since (clock m) w2 (Now (clock m) w)) (Name m))
                    ''completed handling request'' w2))"
proof -
  define w1 where
    "w1 = (if logStarting m then Info (dispatch_entry m r) ''started handling request'' w else w)"
  define w2 where
    "w2 = next w1 rw (WithContext r (ToContext (Context r) (Some (dispatch_entry m r))))"
  from assms(1) have ne: "\<not> excluded (excludeURLs m) (URL_Path r)"
    by (simp add: excluded_iff)
  obtain res where res: "recover_writer w2 rw r = Some res"
    using assms(2)
    by (cases rw; cases "ExtractWriter (Context r)") (simp_all add: recover_writer_def)
  have "snd (ServeHTTP st m w rw r next) =
          Inr (Info (effective_after st m (dispatch_entry m r) res
                       (Since (clock m) w2 (Now (clock m) w)) (Name m))
                 ''completed handling request'' w2)"
    using res by (simp add: ServeHTTP_proceed [OF ne] Let_def w1_def w2_def)
  with res show ?thesis
    by (simp add: Let_def w1_def w2_def Extract_ToContext_Some)
qed

theorem ServeHTTP_after_gets_installed_entry_witness:
  "URL_Path (req_ex ''/orders'' Background) \<notin> set (excludeURLs mw_ex) \<and>
   (is_negroni (NegroniWriter 0) \<or>
    is_negroni (ExtractWriter (Context (req_ex ''/orders'' Background)))) \<and>
   snd (ServeHTTP statusText_ex mw_ex world0 (NegroniWriter 0) (req_ex ''/orders'' Background)
          enriching_handler) =
     Inr (Info (DefaultAfter statusText_ex (dispatch_entry mw_ex (req_ex ''/orders'' Background))
                  \<lparr>Status = 200\<rparr> 0 ''web'')
            ''completed handling request''
            (enriching_handler
               (Info (dispatch_entry mw_ex (req_ex ''/orders'' Background))
                  ''started handling request'' world0)
               (NegroniWriter 0)
               (WithContext (req_ex ''/orders'' Background)
                  (ToContext Background
                     (Some (dispatch_entry mw_ex (req_ex ''/orders'' Background)))))))"
  using ServeHTTP_after_gets_installed_entry [of "req_ex ''/orders'' Background" mw_ex
      "NegroniWriter 0" world0 enriching_handler statusText_ex]
  by (simp add: Let_def mw_ex_simps req_ex_simps effective_after_def recover_writer_def
      enriching_handler_def Extract_ToContext_Some Context_def WithContext_def
      WriteHeader_def Info_def realClock_def world0_def)

text \<open>
  Claim C9 says that \<open>ServeHTTP\<close> writes to no state of the middleware. It does: a
  middleware whose Before hook was set to nil has the default hook stored in it by the
  first dispatch.
\<close>

theorem ServeHTTP_stores_default_hook:
  "BeforeHook (fst (ServeHTTP statusText_ex (mw_ex\<lparr>BeforeHook := None\<rparr>) world0
                      (NegroniWriter 0) (req_ex ''/orders'' Background) ok_handler))
     \<noteq> BeforeHook (mw_ex\<lparr>BeforeHook := None\<rparr>)"
  by (simp add: ServeHTTP_fst)

text \<open>
  Claim C9, amended. A call of \<open>ServeHTTP\<close> leaves the excluded-path list, the
  log-starting option, the logger, the name and the clock of the middleware as they
  were. The only fields it writes are the two hooks: each is left as configured when it
  is set, and set to its default when it is nil. Of the configuration methods,
  \<open>ExcludeURL\<close> changes nothing but the excluded-path list, which it leaves as it
  was or with one string appended, and \<open>SetLogStarting\<close> changes nothing but the
  log-starting option.
\<close>

theorem ServeHTTP_middleware_frame:
  "fst (ServeHTTP st m w rw r next) =
     m\<lparr>BeforeHook := Some (effective_before m), AfterHook := Some (effective_after st m)\<rparr> \<and>
   excludeURLs (fst (ServeHTTP st m w rw r next)) = excludeURLs m \<and>
   logStarting (fst (ServeHTTP st m w rw r next)) = logStarting m \<and>
   Logger (fst (ServeHTTP st m w rw r next)) = Logger m \<and>
   Name (fst (ServeHTTP st m w rw r next)) = Name m \<and>
   clock (fst (ServeHTTP st m w rw r next)) = clock m \<and>
   BeforeHook (fst (ServeHTTP st m w rw r next)) =
     (case BeforeHook m of None \<Rightarrow> Some DefaultBefore | Some b \<Rightarrow> Some b) \<and>
   AfterHook (fst (ServeHTTP st m w rw r next)) =
     (case AfterHook m of None \<Rightarrow> Some (DefaultAfter st) | Some a \<Rightarrow> Some a) \<and>
   fst (ExcludeURL Parse m u) =
     (case Parse u of
        Inl err \<Rightarrow> m
      | Inr parsed \<Rightarrow> m\<lparr>excludeURLs := excludeURLs m @ [u]\<rparr>) \<and>
   SetLogStarting m v = m\<lparr>logStarting := v\<rparr>"
  by (cases "Parse u"; cases "BeforeHook m"; cases "AfterHook m")
     (simp_all add: ServeHTTP_fst effective_before_def effective_after_def ExcludeURL_def
        SetLogStarting_def)

text \<open>
  Claim C10. When the request is not excluded and the writer passed to \<open>ServeHTTP\<close>
  is not status-capturing, the writer consulted instead is the one that
  \<open>ExtractWriter\<close> finds in the context of the request as it came in: \<open>Info\<close>
  is called for the completion record exactly when that writer is status-capturing, with
  the status read from it after the chain. A writer is in that context only if it was put there before
  the middleware was called. When the writer key is absent from it, \<open>ExtractWriter\<close>
  gives the nil writer, the capability check fails, and \<open>ServeHTTP\<close> ends normally
  with the world the next handler left.
\<close>

theorem ServeHTTP_fallback_reads_incoming_context:
  assumes "URL_Path r \<notin> set (excludeURLs m)"
    and "\<not> is_negroni rw"
  shows
    "(let w1 = (if logStarting m then Info (dispatch_entry m r) ''started handling request'' w
                else w);
          w2 = next w1 rw (WithContext r (ToContext (Context r) (Some (dispatch_entry m r))))
      in snd (ServeHTTP st m w rw r next) =
           (case as_negroni w2 (ExtractWriter (Context r)) of
              None \<Rightarrow> Inr w2
            | Some res \<Rightarrow>
                Inr (Info (effective_after st m (dispatch_entry m r) res
                             (Since (clock m) w2 (Now (clock m) w)) (Name m))
                       ''completed handling request'' w2)) \<and>
         (Value (Context r) ctxWriterKey = None \<longrightarrow>
            ExtractWriter (Context r) = NilWriter \<and>
            snd (ServeHTTP st m w rw r next) = Inr w2))"
proof -
  from assms(1) have ne: "\<not> excluded (excludeURLs m) (URL_Path r)"
    by (simp add: excluded_iff)
  have rec: "recover_writer w2 rw r = as_negroni w2 (ExtractWriter (Context r))" for w2
    using assms(2) by (simp add: recover_writer_def as_negroni_None)
  have nil: "Value (Context r) ctxWriterKey = None \<Longrightarrow> ExtractWriter (Context r) = NilWriter"
    by (simp add: ExtractWriter_def)
  show ?thesis
    by (auto simp: ServeHTTP_proceed [OF ne] Let_def rec nil)
qed

theorem ServeHTTP_fallback_reads_incoming_context_witness:
  "URL_Path (req_ex ''/orders'' Background) \<notin> set (excludeURLs mw_ex) \<and>
   \<not> is_negroni (OpaqueWriter 1) \<and>
   Value (Context (req_ex ''/orders'' Background)) ctxWriterKey = None \<and>
   map rec_msg (emitted (projr (snd
     (ServeHTTP statusText_ex mw_ex world0 (OpaqueWriter 1) (req_ex ''/orders'' Background)
        wrapped_ok_handler)))) = [''started handling request''] \<and>
   map rec_msg (emitted (projr (snd
     (ServeHTTP statusText_ex mw_ex world0 (OpaqueWriter 1)
        (req_ex ''/orders'' (AddWriterToContext Background (NegroniWriter 0)))
        wrapped_ok_handler)))) = [''started handling request'', ''completed handling request''] \<and>
   map rec_msg (emitted (projr (snd
     (ServeHTTP statusText_ex mw_ex world0 (OpaqueWriter 1) (req_ex ''/orders'' Background)
        depositing_handler)))) = [''started handling request''] \<and>
   status (projr (snd
     (ServeHTTP statusText_ex mw_ex world0 (OpaqueWriter 1) (req_ex ''/orders'' Background)
        depositing_handler))) 0 = 200"
  using ServeHTTP_fallback_reads_incoming_context [of "req_ex ''/orders'' Background" mw_ex
      "OpaqueWriter 1" world0 wrapped_ok_handler statusText_ex]
    ServeHTTP_fallback_reads_incoming_context [of
      "req_ex ''/orders'' (AddWriterToContext Background (NegroniWriter 0))" mw_ex
      "OpaqueWriter 1" world0 wrapped_ok_handler statusText_ex]
    ServeHTTP_fallback_reads_incoming_context [of "req_ex ''/orders'' Background" mw_ex
      "OpaqueWriter 1" world0 depositing_handler statusText_ex]
  by (simp add: Let_def mw_ex_simps req_ex_simps ExtractWriter_AddWriterToContext
      Background_def Value_def wrapped_ok_handler_def depositing_handler_def Context_def
      WithContext_def WriteHeader_def Info_def world0_def dispatch_entry_ex
      IsLevelEnabled_logrus_New effective_after_def DefaultAfter_def WithFields_def)

end
